theory Spec2Isabelle
  imports Complex_Main "HOL-Library.Sublist"
begin

section \<open>Record sets\<close>

text \<open>
  Both scripts (\<^verbatim>\<open>app.py\<close> and \<^verbatim>\<open>main.py\<close>) work on pandas data frames read from
  CSV files. A data frame is modelled by its column names, in order, and its rows, in
  order; a row is the list of its cells, in column order.

  A cell is an integer (a field of an \<^verbatim>\<open>int64\<close> column, such as \<^verbatim>\<open>Timepoint\<close>), a
  decimal number (a field of a \<^verbatim>\<open>float64\<close> column such as \<^verbatim>\<open>Expression\<close> or
  \<^verbatim>\<open>Value\<close>, idealised as a rational), a text (\<^verbatim>\<open>Twin\<close>, \<^verbatim>\<open>Gene\<close>,
  \<^verbatim>\<open>Marker\<close>) or the missing value \<^verbatim>\<open>NaN\<close>. Row labels (the pandas index) are not
  modelled; column names are those \<^verbatim>\<open>read_csv\<close> produces, which are pairwise different.
\<close>

datatype cell = IntC int | FloatC rat | StrC string | NaN

record dataframe =
  columns :: "string list"
  rows :: "cell list list"

text \<open>The exceptions that the scripts or the pandas operations they call can raise.\<close>

datatype exn =
    TypeError
  | KeyError string
  | AssertionError string
  | ParserError

text \<open>Sequencing of steps that may raise: the first exception ends the computation.\<close>

definition and_then :: "exn + 'a \<Rightarrow> ('a \<Rightarrow> exn + 'b) \<Rightarrow> exn + 'b" where
  "and_then m f = (case m of Inl e \<Rightarrow> Inl e | Inr x \<Rightarrow> f x)"

text \<open>
  The cell of row \<open>r\<close> under column \<open>c\<close>. A row shorter than the header has missing
  values in its last columns, as \<^verbatim>\<open>read_csv\<close> fills them.
\<close>

definition cell_at :: "string list \<Rightarrow> string \<Rightarrow> cell list \<Rightarrow> cell" where
  "cell_at cols c r = (case map_of (zip cols r) c of Some v \<Rightarrow> v | None \<Rightarrow> NaN)"

text \<open>\<^verbatim>\<open>df[c]\<close> for a column name \<open>c\<close>: the column as a series, or \<^verbatim>\<open>KeyError\<close>.\<close>

definition getitem_col :: "dataframe \<Rightarrow> string \<Rightarrow> exn + cell list" where
  "getitem_col df c =
     (if c \<in> set (columns df) then Inr (map (cell_at (columns df) c) (rows df))
      else Inl (KeyError c))"

text \<open>
  \<^verbatim>\<open>series <= n\<close> for an integer \<open>n\<close>, cell by cell: numbers are compared, a
  missing value compares false, and a text cell raises \<^verbatim>\<open>TypeError\<close>.
\<close>

fun cell_le :: "cell \<Rightarrow> int \<Rightarrow> exn + bool" where
  "cell_le (IntC i) n = Inr (i \<le> n)"
| "cell_le (FloatC q) n = Inr (q \<le> of_int n)"
| "cell_le (StrC s) n = Inl TypeError"
| "cell_le NaN n = Inr False"

fun series_le :: "cell list \<Rightarrow> int \<Rightarrow> exn + bool list" where
  "series_le [] n = Inr []"
| "series_le (c # cs) n =
     (case cell_le c n of
        Inl e \<Rightarrow> Inl e
      | Inr b \<Rightarrow> (case series_le cs n of Inl e \<Rightarrow> Inl e | Inr bs \<Rightarrow> Inr (b # bs)))"

text \<open>
  \<^verbatim>\<open>series == v\<close>, cell by cell. Equality never raises: numbers are compared by
  value, texts by content, a missing value equals nothing, and nothing equals
  \<^verbatim>\<open>None\<close> (the value of a select box without options).
\<close>

fun cell_eq :: "cell \<Rightarrow> cell \<Rightarrow> bool" where
  "cell_eq (IntC i) (IntC j) = (i = j)"
| "cell_eq (IntC i) (FloatC q) = (of_int i = q)"
| "cell_eq (FloatC q) (IntC i) = (q = of_int i)"
| "cell_eq (FloatC p) (FloatC q) = (p = q)"
| "cell_eq (StrC s) (StrC t) = (s = t)"
| "cell_eq _ _ = False"

definition series_eq :: "cell list \<Rightarrow> cell option \<Rightarrow> bool list" where
  "series_eq s v = map (\<lambda>c. case v of None \<Rightarrow> False | Some x \<Rightarrow> cell_eq c x) s"

text \<open>
  \<^verbatim>\<open>df[mask]\<close> for a boolean series \<open>msk\<close> over the rows of \<open>df\<close>: the rows at which
  the mask is true, in their order, under the same columns.
\<close>

definition getitem_mask :: "dataframe \<Rightarrow> bool list \<Rightarrow> dataframe" where
  "getitem_mask df msk = df\<lparr>rows := map fst (filter snd (zip (rows df) msk))\<rparr>"

section \<open>The filter\<close>

text \<open>
  \<^verbatim>\<open>filter_by_days\<close> of \<^verbatim>\<open>app.py\<close>; the slider value \<^verbatim>\<open>days_in_space\<close>, a global
  of the script, is the first argument. The function is only called on loaded frames
  (the script stops before when one is absent).
\<close>

definition filter_by_days :: "int \<Rightarrow> dataframe \<Rightarrow> exn + dataframe" where
  "filter_by_days days_in_space df =
     (if ''Timepoint'' \<notin> set (columns df) then Inr df
      else and_then (getitem_col df ''Timepoint'') (\<lambda>s.
           and_then (series_le s days_in_space) (\<lambda>msk.
           Inr (getitem_mask df msk))))"

text \<open>
  \<^verbatim>\<open>filter_days\<close> of \<^verbatim>\<open>main.py\<close>: its argument may be \<^verbatim>\<open>None\<close>, and so may its
  result.
\<close>

definition filter_days :: "int \<Rightarrow> dataframe option \<Rightarrow> exn + dataframe option" where
  "filter_days days_in_space df =
     (case df of
        None \<Rightarrow> Inr None
      | Some d \<Rightarrow>
          if ''Timepoint'' \<notin> set (columns d) then Inr None
          else and_then (getitem_col d ''Timepoint'') (\<lambda>s.
               and_then (series_le s days_in_space) (\<lambda>msk.
               Inr (Some (getitem_mask d msk)))))"

text \<open>
  Narrowing to a category value, the expression
  \<^verbatim>\<open>gene_f[gene_f['Gene'] == selected_gene]\<close> of both scripts (and the same with
  \<^verbatim>\<open>'Marker'\<close>): \<open>col\<close> is the category column and \<open>v\<close> the chosen value.
\<close>

definition narrow :: "dataframe \<Rightarrow> string \<Rightarrow> cell option \<Rightarrow> exn + dataframe" where
  "narrow df col v =
     and_then (getitem_col df col) (\<lambda>s. Inr (getitem_mask df (series_eq s v)))"

section \<open>The loader and its memoization\<close>

text \<open>
  What a run of a script reads from outside: the widget state (the slider, the upload
  check box, the files given to the uploaders, the entries picked in the two select
  boxes) and the file system. A CSV file is represented by what \<^verbatim>\<open>pd.read_csv\<close>
  makes of it: a data frame, or a parse error.
\<close>

datatype csv = Table dataframe | Malformed

fun read_csv :: "csv \<Rightarrow> exn + dataframe option" where
  "read_csv (Table df) = Inr (Some df)"
| "read_csv Malformed = Inl ParserError"

record env =
  days_in_space :: int
  enable_upload :: bool
  uploads :: "string \<rightharpoonup> csv"
  files :: "string \<rightharpoonup> csv"
  gene_choice :: nat
  marker_choice :: nat

text \<open>
  What a run shows on the page, as far as the pipeline decides it: warnings in the side
  bar, warnings and errors in the main area, and line charts (the frame plotted, the x
  column, the y column, the colour column). Titles, headers and the static footer are
  left out.
\<close>

datatype element =
    SidebarWarning string
  | Warning string
  | Error string
  | LineChart dataframe string string "string option"

type_synonym loaded = "(exn + dataframe option) \<times> element list"

text \<open>
  \<^verbatim>\<open>load_data\<close> of \<^verbatim>\<open>app.py\<close>, the undecorated function: its result and the
  elements it shows. \<^verbatim>\<open>uploads env\<close> is looked up under the uploader's label.
\<close>

definition load_data :: "env \<Rightarrow> string \<Rightarrow> string \<Rightarrow> loaded" where
  "load_data env path label =
     (if enable_upload env then
        (case uploads env (''Upload '' @ label @ '' CSV'') of
           Some uploaded \<Rightarrow> (read_csv uploaded, [])
         | None \<Rightarrow> (Inr None, []))
      else
        (case files env path of
           Some file \<Rightarrow> (read_csv file, [])
         | None \<Rightarrow> (Inr None, [SidebarWarning (''File not found: '' @ path)])))"

text \<open>
  \<^verbatim>\<open>load_csv\<close> of \<^verbatim>\<open>main.py\<close>, the undecorated function; the check box is called
  \<^verbatim>\<open>use_uploader\<close> there.
\<close>

definition load_csv :: "env \<Rightarrow> string \<Rightarrow> string \<Rightarrow> loaded" where
  "load_csv env path label =
     (if enable_upload env then
        (case uploads env (''Upload '' @ label @ '' CSV'') of
           Some uploaded \<Rightarrow> (read_csv uploaded, [])
         | None \<Rightarrow> (Inr None, []))
      else
        (case files env path of
           Some file \<Rightarrow> (read_csv file, [])
         | None \<Rightarrow> (Inr None, [SidebarWarning (''File not found: '' @ path)])))"

text \<open>
  The decorator \<^verbatim>\<open>@st.cache_data\<close> on both loaders: a store keyed by the arguments
  \<open>(path, label)\<close> of the call and by nothing else. A call whose arguments are in the
  store returns the stored value and shows the stored elements again, without running
  the function; any other call runs the function and stores what it returned. A call
  that raises stores nothing. The store outlives the run.
\<close>

type_synonym cache = "string \<times> string \<rightharpoonup> dataframe option \<times> element list"

definition cache_data ::
  "(string \<Rightarrow> string \<Rightarrow> loaded) \<Rightarrow> cache \<Rightarrow> string \<Rightarrow> string \<Rightarrow> loaded \<times> cache" where
  "cache_data f cache path label =
     (case cache (path, label) of
        Some (r, shown) \<Rightarrow> ((Inr r, shown), cache)
      | None \<Rightarrow>
          (case f path label of
             (Inr r, shown) \<Rightarrow> ((Inr r, shown), cache((path, label) \<mapsto> (r, shown)))
           | (Inl e, shown) \<Rightarrow> ((Inl e, shown), cache)))"

section \<open>The two scripts\<close>

datatype outcome = Completed | Stopped | Raised exn

text \<open>\<^verbatim>\<open>series.unique()\<close>: the distinct values in order of first appearance.\<close>

definition unique :: "cell list \<Rightarrow> cell list" where
  "unique s = rev (remdups (rev s))"

text \<open>
  \<^verbatim>\<open>st.selectbox\<close>: the entry the user picked (\<open>choice\<close>, the first one unless the
  user picked another), or \<^verbatim>\<open>None\<close> when there is nothing to pick from.
\<close>

definition selectbox :: "cell list \<Rightarrow> nat \<Rightarrow> cell option" where
  "selectbox options choice =
     (if options = [] then None
      else if choice < length options then Some (options ! choice)
      else Some (hd options))"

definition gene_file :: string where
  "gene_file = ''data/gene_expression.csv''"

definition ox_file :: string where
  "ox_file = ''data/oxidative_stress.csv''"

text \<open>
  The two plot columns of \<^verbatim>\<open>app.py\<close>, each from the filtered frame and the selected
  value to the elements it shows.
\<close>

definition app_gene_plot :: "dataframe \<Rightarrow> cell option \<Rightarrow> exn + element list" where
  "app_gene_plot gene_f selected_gene =
     and_then (narrow gene_f ''Gene'' selected_gene) (\<lambda>df_gene.
       if {''Timepoint'', ''Twin'', ''Expression''} \<subseteq> set (columns df_gene)
       then Inr [LineChart df_gene ''Timepoint'' ''Expression'' (Some ''Twin'')]
       else Inr [Error ''Required columns ['Timepoint','Twin','Expression'] missing in gene_expression.csv''])"

definition app_ox_plot :: "dataframe \<Rightarrow> cell option \<Rightarrow> exn + element list" where
  "app_ox_plot ox_f selected_marker =
     and_then (narrow ox_f ''Marker'' selected_marker) (\<lambda>df_ox.
       if {''Timepoint'', ''Value''} \<subseteq> set (columns df_ox)
       then Inr [LineChart df_ox ''Timepoint'' ''Value'' None]
       else Inr [Error ''Required columns ['Timepoint','Marker','Value'] missing in oxidative_stress.csv''])"

text \<open>
  \<^verbatim>\<open>app.py\<close> from the filter on, for two loaded frames: the filters, the two
  assertions with the select boxes, then the gene plot and the marker plot. An
  exception ends the run; what was shown before stays.
\<close>

definition app_pipeline :: "env \<Rightarrow> dataframe \<Rightarrow> dataframe \<Rightarrow> element list \<times> outcome" where
  "app_pipeline env gene_df ox_df =
     (case filter_by_days (days_in_space env) gene_df of
        Inl e \<Rightarrow> ([], Raised e)
      | Inr gene_f \<Rightarrow>
     (case filter_by_days (days_in_space env) ox_df of
        Inl e \<Rightarrow> ([], Raised e)
      | Inr ox_f \<Rightarrow>
     if ''Gene'' \<notin> set (columns gene_df)
     then ([], Raised (AssertionError ''Column 'Gene' not found''))
     else
     (case getitem_col gene_df ''Gene'' of
        Inl e \<Rightarrow> ([], Raised e)
      | Inr genes \<Rightarrow>
     let selected_gene = selectbox (unique genes) (gene_choice env) in
     if ''Marker'' \<notin> set (columns ox_df)
     then ([], Raised (AssertionError ''Column 'Marker' not found''))
     else
     (case getitem_col ox_df ''Marker'' of
        Inl e \<Rightarrow> ([], Raised e)
      | Inr markers \<Rightarrow>
     let selected_marker = selectbox (unique markers) (marker_choice env) in
     (case app_gene_plot gene_f selected_gene of
        Inl e \<Rightarrow> ([], Raised e)
      | Inr shown1 \<Rightarrow>
     (case app_ox_plot ox_f selected_marker of
        Inl e \<Rightarrow> (shown1, Raised e)
      | Inr shown2 \<Rightarrow> (shown1 @ shown2, Completed)))))))"

text \<open>
  The whole of \<^verbatim>\<open>app.py\<close>: both loads through the store, the check that both frames
  are there, then the pipeline. The result is what was shown, how the run ended, and
  the store as the run leaves it.
\<close>

definition run_app :: "env \<Rightarrow> cache \<Rightarrow> (element list \<times> outcome) \<times> cache" where
  "run_app env cache =
     (case cache_data (load_data env) cache gene_file ''Gene Expression'' of
        ((Inl e, shown1), cache1) \<Rightarrow> ((shown1, Raised e), cache1)
      | ((Inr gene_df, shown1), cache1) \<Rightarrow>
     (case cache_data (load_data env) cache1 ox_file ''Oxidative Stress'' of
        ((Inl e, shown2), cache2) \<Rightarrow> ((shown1 @ shown2, Raised e), cache2)
      | ((Inr ox_df, shown2), cache2) \<Rightarrow>
     (case (gene_df, ox_df) of
        (Some g, Some x) \<Rightarrow>
          (case app_pipeline env g x of
             (shown3, out) \<Rightarrow> ((shown1 @ shown2 @ shown3, out), cache2))
      | _ \<Rightarrow>
          ((shown1 @ shown2 @
            [Warning ''Please provide both 'gene_expression.csv' and 'oxidative_stress.csv' in 'data/' or via uploader.''],
            Stopped), cache2))))"

text \<open>
  The two plot columns of \<^verbatim>\<open>main.py\<close>. The filtered frame may be \<^verbatim>\<open>None\<close> there,
  and subscripting \<^verbatim>\<open>None\<close> raises \<^verbatim>\<open>TypeError\<close>.
\<close>

definition main_gene_plot :: "dataframe option \<Rightarrow> cell option \<Rightarrow> exn + element list" where
  "main_gene_plot gene_f selected_gene =
     (case gene_f of
        None \<Rightarrow> Inl TypeError
      | Some f \<Rightarrow>
          and_then (narrow f ''Gene'' selected_gene) (\<lambda>df_g.
            if {''Timepoint'', ''Twin'', ''Expression''} \<subseteq> set (columns df_g)
            then Inr [LineChart df_g ''Timepoint'' ''Expression'' (Some ''Twin'')]
            else Inr [Error ''Required columns ['Timepoint','Twin','Expression'] missing in gene_expression.csv'']))"

definition main_ox_plot :: "dataframe option \<Rightarrow> cell option \<Rightarrow> exn + element list" where
  "main_ox_plot go_f selected_marker =
     (case go_f of
        None \<Rightarrow> Inl TypeError
      | Some f \<Rightarrow>
          and_then (narrow f ''Marker'' selected_marker) (\<lambda>df_o.
            if {''Timepoint'', ''Value''} \<subseteq> set (columns df_o)
            then Inr [LineChart df_o ''Timepoint'' ''Value'' None]
            else Inr [Error ''Required columns ['Timepoint','Value'] missing in oxidative_stress.csv'']))"

text \<open>
  \<^verbatim>\<open>main.py\<close> after the check that both frames are there: the two select boxes, each
  with its error and stop when the column is missing, the filters, the two plots.
\<close>

definition main_pipeline :: "env \<Rightarrow> dataframe \<Rightarrow> dataframe \<Rightarrow> element list \<times> outcome" where
  "main_pipeline env gene_df ox_df =
     (if ''Gene'' \<notin> set (columns gene_df)
      then ([Error '''Gene' column missing in gene_expression.csv''], Stopped)
      else
      (case getitem_col gene_df ''Gene'' of
         Inl e \<Rightarrow> ([], Raised e)
       | Inr genes \<Rightarrow>
      let selected_gene = selectbox (unique genes) (gene_choice env) in
      if ''Marker'' \<notin> set (columns ox_df)
      then ([Error '''Marker' column missing in oxidative_stress.csv''], Stopped)
      else
      (case getitem_col ox_df ''Marker'' of
         Inl e \<Rightarrow> ([], Raised e)
       | Inr markers \<Rightarrow>
      let selected_marker = selectbox (unique markers) (marker_choice env) in
      (case filter_days (days_in_space env) (Some gene_df) of
         Inl e \<Rightarrow> ([], Raised e)
       | Inr gene_f \<Rightarrow>
      (case filter_days (days_in_space env) (Some ox_df) of
         Inl e \<Rightarrow> ([], Raised e)
       | Inr go_f \<Rightarrow>
      (case main_gene_plot gene_f selected_gene of
         Inl e \<Rightarrow> ([], Raised e)
       | Inr shown1 \<Rightarrow>
      (case main_ox_plot go_f selected_marker of
         Inl e \<Rightarrow> (shown1, Raised e)
       | Inr shown2 \<Rightarrow> (shown1 @ shown2, Completed))))))))"

text \<open>
  The whole of \<^verbatim>\<open>main.py\<close>. Its two \<^verbatim>\<open>filter_days\<close> calls come after the check that
  both frames are there, so they are part of the pipeline above.
\<close>

definition run_main :: "env \<Rightarrow> cache \<Rightarrow> (element list \<times> outcome) \<times> cache" where
  "run_main env cache =
     (case cache_data (load_csv env) cache gene_file ''Gene Expression'' of
        ((Inl e, shown1), cache1) \<Rightarrow> ((shown1, Raised e), cache1)
      | ((Inr gene_df, shown1), cache1) \<Rightarrow>
     (case cache_data (load_csv env) cache1 ox_file ''Oxidative Stress'' of
        ((Inl e, shown2), cache2) \<Rightarrow> ((shown1 @ shown2, Raised e), cache2)
      | ((Inr ox_df, shown2), cache2) \<Rightarrow>
     (case (gene_df, ox_df) of
        (Some g, Some x) \<Rightarrow>
          (case main_pipeline env g x of
             (shown3, out) \<Rightarrow> ((shown1 @ shown2 @ shown3, out), cache2))
      | _ \<Rightarrow>
          ((shown1 @ shown2 @
            [Warning ''Please upload or place both 'gene_expression.csv' and 'oxidative_stress.csv' in data/.''],
            Stopped), cache2))))"

section \<open>Notions used in the statements\<close>

text \<open>
  A frame has a Timepoint column, as the data files describe it, when the column is
  there and holds integers (days). \<open>timepoint_le df b r\<close> says that the Timepoint of
  row \<open>r\<close> of \<open>df\<close> is at most \<open>b\<close>.
\<close>

definition is_int :: "cell \<Rightarrow> bool" where
  "is_int c = (case c of IntC i \<Rightarrow> True | _ \<Rightarrow> False)"

definition has_timepoint :: "dataframe \<Rightarrow> bool" where
  "has_timepoint df \<longleftrightarrow>
     ''Timepoint'' \<in> set (columns df) \<and>
     list_all (\<lambda>r. is_int (cell_at (columns df) ''Timepoint'' r)) (rows df)"

definition timepoint_le :: "dataframe \<Rightarrow> int \<Rightarrow> cell list \<Rightarrow> bool" where
  "timepoint_le df b r =
     (case cell_at (columns df) ''Timepoint'' r of IntC i \<Rightarrow> i \<le> b | _ \<Rightarrow> False)"

text \<open>Row \<open>r\<close> of \<open>df\<close> has the value \<open>v\<close> in the category column \<open>col\<close>.\<close>

definition category_is :: "dataframe \<Rightarrow> string \<Rightarrow> cell \<Rightarrow> cell list \<Rightarrow> bool" where
  "category_is df col v r = cell_eq (cell_at (columns df) col r) v"

text \<open>The gene chart is the line chart that plots \<^verbatim>\<open>Expression\<close>.\<close>

definition is_chart :: "string \<Rightarrow> element \<Rightarrow> bool" where
  "is_chart y el = (case el of LineChart df x y' c \<Rightarrow> y' = y | _ \<Rightarrow> False)"

definition gene_chart_shown :: "element list \<Rightarrow> bool" where
  "gene_chart_shown shown = list_ex (is_chart ''Expression'') shown"

text \<open>
  What the gene plot draws when all its columns are there: the gene picked in the
  select box (from the unfiltered frame), and the rows of the frame that are within the
  slider's bound and of that gene.
\<close>

definition selected_gene :: "env \<Rightarrow> dataframe \<Rightarrow> cell option" where
  "selected_gene env gene_df =
     selectbox (unique (map (cell_at (columns gene_df) ''Gene'') (rows gene_df)))
       (gene_choice env)"

definition gene_view :: "env \<Rightarrow> dataframe \<Rightarrow> dataframe" where
  "gene_view env gene_df =
     gene_df\<lparr>rows :=
       filter (\<lambda>r. case selected_gene env gene_df of
                      None \<Rightarrow> False
                    | Some v \<Rightarrow> category_is gene_df ''Gene'' v r)
         (filter (timepoint_le gene_df (days_in_space env)) (rows gene_df))\<rparr>"

text \<open>
  Every entry of the store is what the loader \<open>f\<close> returns now for the entry's
  arguments, as it is when all entries were stored under the present state.
\<close>

definition stored_under :: "(string \<Rightarrow> string \<Rightarrow> loaded) \<Rightarrow> cache \<Rightarrow> bool" where
  "stored_under f cache \<longleftrightarrow>
     (\<forall>path label r shown. cache (path, label) = Some (r, shown) \<longrightarrow>
        f path label = (Inr r, shown))"

section \<open>Example data\<close>

text \<open>
  The gene table of the scenario (Timepoint 0 and 400 for twin A, gene X), a marker
  table, and the marker table without its \<^verbatim>\<open>Marker\<close> column and without its
  \<^verbatim>\<open>Value\<close> column.
\<close>

definition gene_table :: dataframe where
  "gene_table =
     \<lparr>columns = [''Timepoint'', ''Twin'', ''Gene'', ''Expression''],
      rows = [[IntC 0, StrC ''A'', StrC ''X'', FloatC 1],
              [IntC 400, StrC ''A'', StrC ''X'', FloatC 9]]\<rparr>"

definition ox_table :: dataframe where
  "ox_table =
     \<lparr>columns = [''Timepoint'', ''Marker'', ''Value''],
      rows = [[IntC 0, StrC ''M'', FloatC 2],
              [IntC 30, StrC ''M'', FloatC 3]]\<rparr>"

definition ox_table_no_marker :: dataframe where
  "ox_table_no_marker =
     \<lparr>columns = [''Timepoint'', ''Value''],
      rows = [[IntC 0, FloatC 2], [IntC 30, FloatC 3]]\<rparr>"

definition ox_table_no_value :: dataframe where
  "ox_table_no_value =
     \<lparr>columns = [''Timepoint'', ''Marker''],
      rows = [[IntC 0, StrC ''M''], [IntC 30, StrC ''M'']]\<rparr>"

definition no_timepoint_table :: dataframe where
  "no_timepoint_table =
     \<lparr>columns = [''Marker'', ''Value''], rows = [[StrC ''M'', FloatC 2]]\<rparr>"

text \<open>
  States of the outside: both files in place and the slider at its default; the same
  with a marker file that lacks \<^verbatim>\<open>Marker\<close>; the first state after the user ticked
  the upload box without uploading anything; and a state with no files at all.
\<close>

definition files_env :: env where
  "files_env =
     \<lparr>days_in_space = 340, enable_upload = False, uploads = Map.empty,
      files = [gene_file \<mapsto> Table gene_table, ox_file \<mapsto> Table ox_table],
      gene_choice = 0, marker_choice = 0\<rparr>"

definition no_marker_env :: env where
  "no_marker_env = files_env\<lparr>files := [gene_file \<mapsto> Table gene_table,
                                         ox_file \<mapsto> Table ox_table_no_marker]\<rparr>"

definition upload_env :: env where
  "upload_env = files_env\<lparr>enable_upload := True\<rparr>"

definition empty_env :: env where
  "empty_env = files_env\<lparr>files := Map.empty\<rparr>"

text \<open>
  The store as a run of \<^verbatim>\<open>app.py\<close> leaves it when both files are in place and the
  store was empty before.
\<close>

definition stale_cache :: cache where
  "stale_cache = snd (run_app files_env Map.empty)"

section \<open>The filter keeps the rows within the bound\<close>

text \<open>Indexing by a mask computed from the rows themselves is a filter of the rows.\<close>

lemma mask_filter: "map fst (filter snd (zip xs (map P xs))) = filter P xs"
  by (induction xs) auto

text \<open>On a series of integers the comparison does not raise.\<close>

lemma series_le_ints:
  "list_all is_int s \<Longrightarrow>
   series_le s n = Inr (map (\<lambda>c. case c of IntC i \<Rightarrow> i \<le> n | _ \<Rightarrow> False) s)"
  by (induction s) (auto simp: is_int_def split: cell.splits)

text \<open>A text cell in the column makes it raise: such a column is no Timepoint column.\<close>

lemma series_le_text: "StrC t \<in> set s \<Longrightarrow> series_le s n = Inl TypeError"
proof (induction s)
  case Nil
  then show ?case by simp
next
  case (Cons c cs)
  show ?case
  proof (cases "c = StrC t")
    case True
    then show ?thesis by simp
  next
    case False
    with Cons have "series_le cs n = Inl TypeError" by simp
    then show ?thesis by (cases c) simp_all
  qed
qed

lemma filter_by_days_text:
  assumes "''Timepoint'' \<in> set (columns df)" and "r \<in> set (rows df)"
    and "cell_at (columns df) ''Timepoint'' r = StrC t"
  shows "filter_by_days b df = Inl TypeError"
proof -
  from assms(2,3) have "StrC t \<in> set (map (cell_at (columns df) ''Timepoint'') (rows df))"
    by force
  then have "series_le (map (cell_at (columns df) ''Timepoint'') (rows df)) b = Inl TypeError"
    by (rule series_le_text)
  with assms(1) show ?thesis
    by (simp add: filter_by_days_def getitem_col_def and_then_def)
qed

lemma filter_by_days_rows:
  assumes "has_timepoint df"
  shows "filter_by_days b df = Inr (df\<lparr>rows := filter (timepoint_le df b) (rows df)\<rparr>)"
proof -
  let ?s = "map (cell_at (columns df) ''Timepoint'') (rows df)"
  from assms have col: "''Timepoint'' \<in> set (columns df)" and ints: "list_all is_int ?s"
    by (simp_all add: has_timepoint_def list_all_iff)
  have "series_le ?s b = Inr (map (timepoint_le df b) (rows df))"
    using series_le_ints [OF ints, of b] by (simp add: timepoint_le_def comp_def)
  then show ?thesis
    using col
    by (simp add: filter_by_days_def getitem_col_def and_then_def getitem_mask_def mask_filter)
qed

lemma filter_days_eq:
  "''Timepoint'' \<in> set (columns df) \<Longrightarrow>
   filter_days b (Some df) = map_sum id Some (filter_by_days b df)"
  by (auto simp: filter_days_def filter_by_days_def and_then_def split: sum.splits)

lemma filter_days_rows:
  assumes "has_timepoint df"
  shows "filter_days b (Some df) =
         Inr (Some (df\<lparr>rows := filter (timepoint_le df b) (rows df)\<rparr>))"
proof -
  from assms have "''Timepoint'' \<in> set (columns df)"
    by (simp add: has_timepoint_def)
  then show ?thesis
    by (simp add: filter_days_eq filter_by_days_rows [OF assms])
qed

lemma has_timepoint_sub:
  "has_timepoint df \<Longrightarrow> set rs \<subseteq> set (rows df) \<Longrightarrow> has_timepoint (df\<lparr>rows := rs\<rparr>)"
  by (auto simp: has_timepoint_def list_all_iff)

lemma timepoint_le_rows [simp]: "timepoint_le (df\<lparr>rows := rs\<rparr>) b = timepoint_le df b"
  by (simp add: timepoint_le_def fun_eq_iff)

lemma timepoint_le_mono: "b' \<le> b \<Longrightarrow> timepoint_le df b' r \<Longrightarrow> timepoint_le df b r"
  by (auto simp: timepoint_le_def split: cell.splits)

lemma has_timepoint_gene_table: "has_timepoint gene_table"
  by (simp add: has_timepoint_def gene_table_def cell_at_def is_int_def)

lemma gene_table_within_340:
  "filter (timepoint_le gene_table 340) (rows gene_table) =
   [[IntC 0, StrC ''A'', StrC ''X'', FloatC 1]]"
  by (simp add: timepoint_le_def gene_table_def cell_at_def)

text \<open>
  C1. For every frame with a Timepoint column and every integer bound, both filters
  return the frame restricted to exactly the rows whose Timepoint is at most the bound:
  these rows form a subsequence of the input rows (their order is kept) and each of
  them is a row of the input.
\<close>

theorem filter_exact:
  assumes "has_timepoint df"
  shows "filter_by_days b df = Inr (df\<lparr>rows := filter (timepoint_le df b) (rows df)\<rparr>) \<and>
         filter_days b (Some df) =
           Inr (Some (df\<lparr>rows := filter (timepoint_le df b) (rows df)\<rparr>)) \<and>
         subseq (filter (timepoint_le df b) (rows df)) (rows df) \<and>
         set (filter (timepoint_le df b) (rows df)) \<subseteq> set (rows df)"
  using assms by (simp add: filter_by_days_rows filter_days_rows)

text \<open>The scenario of the gene table: with the bound 340 only the row of day 0 stays.\<close>

theorem filter_exact_witness:
  "has_timepoint gene_table \<and>
   filter_by_days 340 gene_table =
     Inr (gene_table\<lparr>rows := [[IntC 0, StrC ''A'', StrC ''X'', FloatC 1]]\<rparr>) \<and>
   filter_days 340 (Some gene_table) =
     Inr (Some (gene_table\<lparr>rows := [[IntC 0, StrC ''A'', StrC ''X'', FloatC 1]]\<rparr>))"
  using filter_exact [OF has_timepoint_gene_table, of 340]
  by (simp add: has_timepoint_gene_table gene_table_within_340)

section \<open>Where the two filters differ\<close>

text \<open>
  C3. On a frame without a Timepoint column \<^verbatim>\<open>filter_by_days\<close> returns the frame
  unchanged and \<^verbatim>\<open>filter_days\<close> returns \<^verbatim>\<open>None\<close>; on every frame with a Timepoint
  column the two return the same (\<^verbatim>\<open>filter_days\<close> the frame that
  \<^verbatim>\<open>filter_by_days\<close> returns, or the same exception).
\<close>

theorem filters_agree_iff_timepoint:
  "(''Timepoint'' \<notin> set (columns df) \<longrightarrow>
      filter_by_days b df = Inr df \<and> filter_days b (Some df) = Inr None) \<and>
   (''Timepoint'' \<in> set (columns df) \<longrightarrow>
      filter_days b (Some df) = map_sum id Some (filter_by_days b df))"
  by (simp add: filter_days_eq) (simp add: filter_by_days_def filter_days_def)

theorem filters_agree_iff_timepoint_witness:
  "''Timepoint'' \<notin> set (columns no_timepoint_table) \<and>
   filter_by_days 0 no_timepoint_table = Inr no_timepoint_table \<and>
   filter_days 0 (Some no_timepoint_table) = Inr None \<and>
   ''Timepoint'' \<in> set (columns gene_table) \<and>
   filter_days 340 (Some gene_table) = map_sum id Some (filter_by_days 340 gene_table)"
proof -
  have a: "''Timepoint'' \<notin> set (columns no_timepoint_table)"
    by (simp add: no_timepoint_table_def)
  have b: "''Timepoint'' \<in> set (columns gene_table)"
    by (simp add: gene_table_def)
  show ?thesis
    using a b filters_agree_iff_timepoint [of no_timepoint_table 0]
      filters_agree_iff_timepoint [of gene_table 340]
    by simp
qed

section \<open>Algebra of the filter\<close>

text \<open>
  C5. Filtering is monotone in the bound: for a frame with a Timepoint column and
  bounds \<open>b' < b\<close>, both filters succeed at both bounds and every row kept at \<open>b'\<close> is
  kept at \<open>b\<close>.
\<close>

theorem filter_monotone:
  assumes "has_timepoint df" and "b' < b"
  shows "\<exists>R R'. filter_by_days b df = Inr R \<and> filter_by_days b' df = Inr R' \<and>
           filter_days b (Some df) = Inr (Some R) \<and>
           filter_days b' (Some df) = Inr (Some R') \<and>
           set (rows R') \<subseteq> set (rows R)"
proof -
  have "set (filter (timepoint_le df b') (rows df)) \<subseteq>
        set (filter (timepoint_le df b) (rows df))"
    using assms(2) by (auto intro: timepoint_le_mono [of b' b])
  then show ?thesis
    by (simp add: filter_by_days_rows [OF assms(1)] filter_days_rows [OF assms(1)])
qed

theorem filter_monotone_witness:
  "has_timepoint gene_table \<and> (0::int) < 340 \<and>
   (\<exists>R R'. filter_by_days 340 gene_table = Inr R \<and> filter_by_days 0 gene_table = Inr R' \<and>
      filter_days 340 (Some gene_table) = Inr (Some R) \<and>
      filter_days 0 (Some gene_table) = Inr (Some R') \<and>
      set (rows R') \<subseteq> set (rows R))"
proof -
  have lt: "(0::int) < 340" by simp
  show ?thesis
    using filter_monotone [OF has_timepoint_gene_table lt]
    by (simp add: has_timepoint_gene_table)
qed

text \<open>
  C6. Filtering is idempotent: for a frame with a Timepoint column, filtering the
  filtered frame again by the same bound returns that very frame.
\<close>

theorem filter_idempotent:
  assumes "has_timepoint df"
  shows "\<exists>R. filter_by_days b df = Inr R \<and> filter_by_days b R = Inr R \<and>
           filter_days b (Some df) = Inr (Some R) \<and>
           filter_days b (Some R) = Inr (Some R)"
proof -
  let ?R = "df\<lparr>rows := filter (timepoint_le df b) (rows df)\<rparr>"
  have R: "has_timepoint ?R"
    by (rule has_timepoint_sub [OF assms]) simp
  have "filter_by_days b ?R = Inr ?R" "filter_days b (Some ?R) = Inr (Some ?R)"
    by (simp_all add: filter_by_days_rows [OF R] filter_days_rows [OF R])
  then show ?thesis
    by (simp add: filter_by_days_rows [OF assms] filter_days_rows [OF assms])
qed

theorem filter_idempotent_witness:
  "has_timepoint gene_table \<and>
   (\<exists>R. filter_by_days 340 gene_table = Inr R \<and> filter_by_days 340 R = Inr R \<and>
      filter_days 340 (Some gene_table) = Inr (Some R) \<and>
      filter_days 340 (Some R) = Inr (Some R))"
  using filter_idempotent [OF has_timepoint_gene_table, of 340]
  by (simp add: has_timepoint_gene_table)

text \<open>
  C9. Filtering keeps the schema: for a frame with a Timepoint column the filtered
  frame has the same columns in the same order.
\<close>

theorem filter_keeps_columns:
  assumes "has_timepoint df"
  shows "\<exists>R. filter_by_days b df = Inr R \<and> filter_days b (Some df) = Inr (Some R) \<and>
           columns R = columns df"
  by (simp add: filter_by_days_rows [OF assms] filter_days_rows [OF assms])

theorem filter_keeps_columns_witness:
  "has_timepoint gene_table \<and>
   (\<exists>R. filter_by_days 340 gene_table = Inr R \<and>
      filter_days 340 (Some gene_table) = Inr (Some R) \<and>
      columns R = [''Timepoint'', ''Twin'', ''Gene'', ''Expression''])"
proof -
  have c: "columns gene_table = [''Timepoint'', ''Twin'', ''Gene'', ''Expression'']"
    by (simp add: gene_table_def)
  show ?thesis
    using filter_keeps_columns [OF has_timepoint_gene_table, of 340]
    by (simp add: has_timepoint_gene_table c)
qed

section \<open>Narrowing to a category value\<close>

lemma narrow_rows:
  "col \<in> set (columns df) \<Longrightarrow>
   narrow df col (Some v) = Inr (df\<lparr>rows := filter (category_is df col v) (rows df)\<rparr>)"
  by (simp add: narrow_def getitem_col_def and_then_def getitem_mask_def series_eq_def
      mask_filter category_is_def [abs_def] comp_def)

lemma narrow_none_rows:
  "col \<in> set (columns df) \<Longrightarrow> narrow df col None = Inr (df\<lparr>rows := []\<rparr>)"
  by (simp add: narrow_def getitem_col_def and_then_def getitem_mask_def series_eq_def
      mask_filter comp_def)

lemma category_is_rows [simp]: "category_is (df\<lparr>rows := rs\<rparr>) col v = category_is df col v"
  by (simp add: category_is_def fun_eq_iff)

lemma narrow_total:
  "col \<in> set (columns df) \<Longrightarrow>
   narrow df col v =
     Inr (df\<lparr>rows := filter (\<lambda>r. case v of None \<Rightarrow> False
                                    | Some x \<Rightarrow> category_is df col x r) (rows df)\<rparr>)"
  by (cases v) (simp_all add: narrow_none_rows narrow_rows)

text \<open>For a text value, as genes and markers are, equality of cells is identity.\<close>

lemma category_is_text:
  "category_is df col (StrC s) r \<longleftrightarrow> cell_at (columns df) col r = StrC s"
  by (cases "cell_at (columns df) col r") (auto simp: category_is_def)

text \<open>
  C7. For every frame with the category column and every chosen value, narrowing
  returns the frame restricted to exactly the rows whose category cell equals the
  value; when no row has the value, the result is the frame without rows, and no
  exception is raised.
\<close>

theorem narrow_exact:
  assumes "col \<in> set (columns df)"
  shows "narrow df col (Some v) =
           Inr (df\<lparr>rows := filter (category_is df col v) (rows df)\<rparr>) \<and>
         ((\<forall>r \<in> set (rows df). \<not> category_is df col v r) \<longrightarrow>
            narrow df col (Some v) = Inr (df\<lparr>rows := []\<rparr>))"
proof -
  have "(\<forall>r \<in> set (rows df). \<not> category_is df col v r) \<longrightarrow>
          filter (category_is df col v) (rows df) = []"
    by (simp add: filter_empty_conv)
  then show ?thesis
    by (auto simp add: narrow_rows [OF assms])
qed

theorem narrow_exact_witness:
  "''Gene'' \<in> set (columns gene_table) \<and>
   filter (category_is gene_table ''Gene'' (StrC ''Y'')) (rows gene_table) = [] \<and>
   narrow gene_table ''Gene'' (Some (StrC ''Y'')) = Inr (gene_table\<lparr>rows := []\<rparr>) \<and>
   narrow gene_table ''Gene'' (Some (StrC ''X'')) = Inr gene_table"
proof -
  have c: "''Gene'' \<in> set (columns gene_table)"
    by (simp add: gene_table_def)
  have n: "\<forall>r \<in> set (rows gene_table). \<not> category_is gene_table ''Gene'' (StrC ''Y'') r"
    by (simp add: gene_table_def category_is_def cell_at_def)
  have x: "filter (category_is gene_table ''Gene'' (StrC ''X'')) (rows gene_table) =
           rows gene_table"
    by (simp add: gene_table_def category_is_def cell_at_def)
  have y: "filter (category_is gene_table ''Gene'' (StrC ''Y'')) (rows gene_table) = []"
    using n by (simp add: filter_empty_conv)
  show ?thesis
    using c n narrow_exact [OF c, of "StrC ''Y''"] narrow_exact [OF c, of "StrC ''X''"]
    by (simp add: x y)
qed

text \<open>
  C10. Filtering and narrowing commute: for a frame with a Timepoint column and the
  category column, narrowing the filtered frame and filtering the narrowed frame both
  succeed and give the same frame.
\<close>

theorem filter_narrow_commute:
  assumes "has_timepoint df" and "col \<in> set (columns df)"
  shows "\<exists>F N R. filter_by_days b df = Inr F \<and> narrow F col v = Inr R \<and>
           narrow df col v = Inr N \<and> filter_by_days b N = Inr R \<and>
           filter_days b (Some df) = Inr (Some F) \<and>
           filter_days b (Some N) = Inr (Some R)"
proof -
  let ?P = "\<lambda>r. case v of None \<Rightarrow> False | Some x \<Rightarrow> category_is df col x r"
  let ?F = "df\<lparr>rows := filter (timepoint_le df b) (rows df)\<rparr>"
  let ?N = "df\<lparr>rows := filter ?P (rows df)\<rparr>"
  let ?R = "df\<lparr>rows := filter ?P (filter (timepoint_le df b) (rows df))\<rparr>"
  have N: "has_timepoint ?N"
    by (rule has_timepoint_sub [OF assms(1)]) simp
  have colF: "col \<in> set (columns ?F)"
    using assms(2) by simp
  have 1: "narrow ?F col v = Inr ?R"
    using narrow_total [OF colF, of v] by (cases v) simp_all
  have "filter (timepoint_le df b) (filter ?P (rows df)) =
        filter ?P (filter (timepoint_le df b) (rows df))"
    by (simp add: conj_commute)
  then have 2: "filter_by_days b ?N = Inr ?R" "filter_days b (Some ?N) = Inr (Some ?R)"
    by (simp_all add: filter_by_days_rows [OF N] filter_days_rows [OF N])
  show ?thesis
    using 1 2
    by (simp add: filter_by_days_rows [OF assms(1)] filter_days_rows [OF assms(1)]
        narrow_total [OF assms(2)])
qed

theorem filter_narrow_commute_witness:
  "has_timepoint gene_table \<and> ''Gene'' \<in> set (columns gene_table) \<and>
   (\<exists>F N R. filter_by_days 340 gene_table = Inr F \<and>
      narrow F ''Gene'' (Some (StrC ''X'')) = Inr R \<and>
      narrow gene_table ''Gene'' (Some (StrC ''X'')) = Inr N \<and>
      filter_by_days 340 N = Inr R \<and>
      filter_days 340 (Some gene_table) = Inr (Some F) \<and>
      filter_days 340 (Some N) = Inr (Some R))"
proof -
  have c: "''Gene'' \<in> set (columns gene_table)"
    by (simp add: gene_table_def)
  show ?thesis
    using filter_narrow_commute [OF has_timepoint_gene_table c, of 340 "Some (StrC ''X'')"]
    by (simp add: has_timepoint_gene_table c)
qed

section \<open>The loader and its store\<close>

lemma load_csv_eq: "load_csv = load_data"
  by (simp add: fun_eq_iff load_csv_def load_data_def)

lemma files_neq: "gene_file \<noteq> ox_file"
  by (simp add: gene_file_def ox_file_def)

lemma load_data_files_env:
  "load_data files_env gene_file label = (Inr (Some gene_table), [])"
  "load_data files_env ox_file label = (Inr (Some ox_table), [])"
  using files_neq by (simp_all add: load_data_def files_env_def)

lemma cache_data_stored_under:
  assumes "stored_under f cache"
  shows "fst (cache_data f cache path label) = f path label"
    and "stored_under f (snd (cache_data f cache path label))"
  using assms
  by (auto simp: cache_data_def stored_under_def split: option.splits prod.splits sum.splits)

lemma stored_under_empty: "stored_under f Map.empty"
  by (simp add: stored_under_def)

lemma stale_cache_eq:
  "stale_cache = [(gene_file, ''Gene Expression'') \<mapsto> (Some gene_table, []),
                  (ox_file, ''Oxidative Stress'') \<mapsto> (Some ox_table, [])]"
  using files_neq
  by (simp add: stale_cache_def run_app_def cache_data_def load_data_files_env
      split: prod.splits)

lemma stored_under_stale: "stored_under (load_data files_env) stale_cache"
  by (auto simp: stale_cache_eq stored_under_def load_data_files_env split: if_splits)

text \<open>
  The decorated loader never drops or replaces an entry of the store: nothing
  invalidates what was stored once.
\<close>

lemma cache_data_keeps_entries:
  "cache k = Some v \<Longrightarrow> snd (cache_data f cache path label) k = Some v"
  by (auto simp: cache_data_def split: option.splits prod.splits sum.splits)

text \<open>
  With the state of the file system and the widgets held fixed while the store fills,
  the decorated loader returns what the loader run from scratch returns, with the same
  elements shown: the empty store holds only what the loader returns in that state,
  and every call keeps it so.
\<close>

lemma memo_same_state:
  "stored_under (load_data env) Map.empty \<and> stored_under (load_csv env) Map.empty \<and>
   (stored_under (load_data env) cache \<longrightarrow>
      fst (cache_data (load_data env) cache path label) = load_data env path label \<and>
      stored_under (load_data env) (snd (cache_data (load_data env) cache path label))) \<and>
   (stored_under (load_csv env) cache \<longrightarrow>
      fst (cache_data (load_csv env) cache path label) = load_csv env path label \<and>
      stored_under (load_csv env) (snd (cache_data (load_csv env) cache path label)))"
  by (simp add: cache_data_stored_under stored_under_empty)

text \<open>
  C4, as the claim states it, fails for the loader the scripts call, which is the
  decorated one. After a run with both files in place the files are removed; upload
  mode is off. The call finds its arguments in the store and returns the gene table
  stored by the earlier run, and no warning is recorded.
\<close>

theorem stale_hit_counterexample:
  "\<not> enable_upload empty_env \<and> files empty_env gene_file = None \<and>
   fst (cache_data (load_data empty_env) stale_cache gene_file ''Gene Expression'') =
     (Inr (Some gene_table), []) \<and>
   fst (cache_data (load_csv empty_env) stale_cache gene_file ''Gene Expression'') =
     (Inr (Some gene_table), [])"
  by (simp add: stale_cache_eq cache_data_def empty_env_def files_env_def)

text \<open>
  C4, amended. When upload mode is off and no file exists at the path, the bodies of
  both loaders return \<^verbatim>\<open>None\<close> and record the warning \<^verbatim>\<open>File not found: <path>\<close>
  in the side bar. The decorated loaders, which the scripts call, do so exactly when
  the store holds no entry for the arguments \<open>(path, label)\<close> or holds that very
  result for them; any other entry of the store is returned in its place.
\<close>

theorem missing_file_warns:
  assumes "\<not> enable_upload env" and "files env path = None"
  shows "load_data env path label =
           (Inr None, [SidebarWarning (''File not found: '' @ path)]) \<and>
         load_csv env path label =
           (Inr None, [SidebarWarning (''File not found: '' @ path)]) \<and>
         (fst (cache_data (load_data env) cache path label) =
            (Inr None, [SidebarWarning (''File not found: '' @ path)]) \<longleftrightarrow>
          cache (path, label) = None \<or>
          cache (path, label) = Some (None, [SidebarWarning (''File not found: '' @ path)])) \<and>
         (fst (cache_data (load_csv env) cache path label) =
            (Inr None, [SidebarWarning (''File not found: '' @ path)]) \<longleftrightarrow>
          cache (path, label) = None \<or>
          cache (path, label) = Some (None, [SidebarWarning (''File not found: '' @ path)]))"
proof -
  have body: "load_data env path label =
      (Inr None, [SidebarWarning (''File not found: '' @ path)])"
    using assms by (simp add: load_data_def)
  have "fst (cache_data (load_data env) cache path label) =
          (Inr None, [SidebarWarning (''File not found: '' @ path)]) \<longleftrightarrow>
        cache (path, label) = None \<or>
        cache (path, label) = Some (None, [SidebarWarning (''File not found: '' @ path)])"
  proof (cases "cache (path, label)")
    case None
    then show ?thesis by (simp add: cache_data_def body)
  next
    case (Some entry)
    then show ?thesis by (cases entry) (auto simp: cache_data_def)
  qed
  with body show ?thesis by (simp add: load_csv_eq)
qed

theorem missing_file_warns_witness:
  "\<not> enable_upload empty_env \<and> files empty_env gene_file = None \<and>
   load_data empty_env gene_file ''Gene Expression'' =
     (Inr None, [SidebarWarning ''File not found: data/gene_expression.csv'']) \<and>
   load_csv empty_env gene_file ''Gene Expression'' =
     (Inr None, [SidebarWarning ''File not found: data/gene_expression.csv'']) \<and>
   fst (cache_data (load_data empty_env) Map.empty gene_file ''Gene Expression'') =
     (Inr None, [SidebarWarning ''File not found: data/gene_expression.csv'']) \<and>
   fst (cache_data (load_csv empty_env) Map.empty gene_file ''Gene Expression'') =
     (Inr None, [SidebarWarning ''File not found: data/gene_expression.csv''])"
proof -
  have a: "\<not> enable_upload empty_env" and b: "files empty_env gene_file = None"
    by (simp_all add: empty_env_def files_env_def)
  show ?thesis
    using a b missing_file_warns [OF a b, of "''Gene Expression''" Map.empty]
    by (simp add: gene_file_def)
qed

section \<open>Missing columns\<close>

text \<open>With both frames loaded, a run of a script is the run of its pipeline.\<close>

lemma run_app_loaded:
  assumes c: "stored_under (load_data env) cache"
    and g: "load_data env gene_file ''Gene Expression'' = (Inr (Some g), s1)"
    and x: "load_data env ox_file ''Oxidative Stress'' = (Inr (Some x), s2)"
  shows "fst (run_app env cache) =
           (s1 @ s2 @ fst (app_pipeline env g x), snd (app_pipeline env g x))"
proof -
  obtain c1 where 1: "cache_data (load_data env) cache gene_file ''Gene Expression'' =
      ((Inr (Some g), s1), c1)" and c1: "stored_under (load_data env) c1"
    using cache_data_stored_under [OF c, of gene_file "''Gene Expression''"] g
    by (cases "cache_data (load_data env) cache gene_file ''Gene Expression''") simp
  obtain c2 where 2: "cache_data (load_data env) c1 ox_file ''Oxidative Stress'' =
      ((Inr (Some x), s2), c2)"
    using cache_data_stored_under [OF c1, of ox_file "''Oxidative Stress''"] x
    by (cases "cache_data (load_data env) c1 ox_file ''Oxidative Stress''") simp
  show ?thesis
    by (simp add: run_app_def 1 2 split: prod.splits)
qed

lemma run_main_loaded:
  assumes c: "stored_under (load_csv env) cache"
    and g: "load_csv env gene_file ''Gene Expression'' = (Inr (Some g), s1)"
    and x: "load_csv env ox_file ''Oxidative Stress'' = (Inr (Some x), s2)"
  shows "fst (run_main env cache) =
           (s1 @ s2 @ fst (main_pipeline env g x), snd (main_pipeline env g x))"
proof -
  obtain c1 where 1: "cache_data (load_csv env) cache gene_file ''Gene Expression'' =
      ((Inr (Some g), s1), c1)" and c1: "stored_under (load_csv env) c1"
    using cache_data_stored_under [OF c, of gene_file "''Gene Expression''"] g
    by (cases "cache_data (load_csv env) cache gene_file ''Gene Expression''") simp
  obtain c2 where 2: "cache_data (load_csv env) c1 ox_file ''Oxidative Stress'' =
      ((Inr (Some x), s2), c2)"
    using cache_data_stored_under [OF c1, of ox_file "''Oxidative Stress''"] x
    by (cases "cache_data (load_csv env) c1 ox_file ''Oxidative Stress''") simp
  show ?thesis
    by (simp add: run_main_def 1 2 split: prod.splits)
qed

text \<open>Without the \<^verbatim>\<open>Marker\<close> column both scripts end before any plot.\<close>

lemma app_pipeline_no_marker:
  assumes "has_timepoint gene_df" and "has_timepoint ox_df"
    and "''Gene'' \<in> set (columns gene_df)" and "''Marker'' \<notin> set (columns ox_df)"
  shows "app_pipeline env gene_df ox_df =
           ([], Raised (AssertionError ''Column 'Marker' not found''))"
  using assms(3,4)
  by (simp add: app_pipeline_def filter_by_days_rows [OF assms(1)]
      filter_by_days_rows [OF assms(2)] getitem_col_def)

lemma main_pipeline_no_marker:
  assumes "''Gene'' \<in> set (columns gene_df)" and "''Marker'' \<notin> set (columns ox_df)"
  shows "main_pipeline env gene_df ox_df =
           ([Error '''Marker' column missing in oxidative_stress.csv''], Stopped)"
  using assms by (simp add: main_pipeline_def getitem_col_def)

text \<open>The plots, each on its own frame.\<close>

lemma app_gene_plot_ok:
  assumes "{''Timepoint'', ''Gene'', ''Twin'', ''Expression''} \<subseteq> set (columns f)"
  shows "app_gene_plot f v =
     Inr [LineChart
            (f\<lparr>rows := filter (\<lambda>r. case v of None \<Rightarrow> False
                                   | Some x \<Rightarrow> category_is f ''Gene'' x r) (rows f)\<rparr>)
            ''Timepoint'' ''Expression'' (Some ''Twin'')]"
  using assms by (simp add: app_gene_plot_def narrow_total and_then_def)

lemma main_gene_plot_ok:
  assumes "{''Timepoint'', ''Gene'', ''Twin'', ''Expression''} \<subseteq> set (columns f)"
  shows "main_gene_plot (Some f) v =
     Inr [LineChart
            (f\<lparr>rows := filter (\<lambda>r. case v of None \<Rightarrow> False
                                   | Some x \<Rightarrow> category_is f ''Gene'' x r) (rows f)\<rparr>)
            ''Timepoint'' ''Expression'' (Some ''Twin'')]"
  using assms by (simp add: main_gene_plot_def narrow_total and_then_def)

lemma app_ox_plot_no_value:
  assumes "''Marker'' \<in> set (columns f)" and "''Value'' \<notin> set (columns f)"
  shows "app_ox_plot f v =
     Inr [Error ''Required columns ['Timepoint','Marker','Value'] missing in oxidative_stress.csv'']"
  using assms by (simp add: app_ox_plot_def narrow_total and_then_def)

lemma main_ox_plot_no_value:
  assumes "''Marker'' \<in> set (columns f)" and "''Value'' \<notin> set (columns f)"
  shows "main_ox_plot (Some f) v =
     Inr [Error ''Required columns ['Timepoint','Value'] missing in oxidative_stress.csv'']"
  using assms by (simp add: main_ox_plot_def narrow_total and_then_def)

text \<open>Without the \<^verbatim>\<open>Value\<close> column only the marker plot is replaced by an error.\<close>

lemma app_pipeline_no_value:
  assumes g: "has_timepoint gene_df" and x: "has_timepoint ox_df"
    and cols: "{''Gene'', ''Twin'', ''Expression''} \<subseteq> set (columns gene_df)"
    and m: "''Marker'' \<in> set (columns ox_df)" and v: "''Value'' \<notin> set (columns ox_df)"
  shows "app_pipeline env gene_df ox_df =
     ([LineChart (gene_view env gene_df) ''Timepoint'' ''Expression'' (Some ''Twin''),
       Error ''Required columns ['Timepoint','Marker','Value'] missing in oxidative_stress.csv''],
      Completed)"
proof -
  let ?F = "gene_df\<lparr>rows := filter (timepoint_le gene_df (days_in_space env)) (rows gene_df)\<rparr>"
  let ?X = "ox_df\<lparr>rows := filter (timepoint_le ox_df (days_in_space env)) (rows ox_df)\<rparr>"
  from g have t: "''Timepoint'' \<in> set (columns gene_df)"
    by (simp add: has_timepoint_def)
  have 1: "app_gene_plot ?F (selected_gene env gene_df) =
      Inr [LineChart (gene_view env gene_df) ''Timepoint'' ''Expression'' (Some ''Twin'')]"
    using cols t by (simp add: app_gene_plot_ok gene_view_def cong: option.case_cong)
  have 2: "app_ox_plot ?X v' =
      Inr [Error ''Required columns ['Timepoint','Marker','Value'] missing in oxidative_stress.csv'']"
    for v'
    using m v by (simp add: app_ox_plot_no_value)
  show ?thesis
    using cols m
    by (simp add: app_pipeline_def filter_by_days_rows [OF g] filter_by_days_rows [OF x]
        getitem_col_def 1 [unfolded selected_gene_def] 2 Let_def)
qed

lemma main_pipeline_no_value:
  assumes g: "has_timepoint gene_df" and x: "has_timepoint ox_df"
    and cols: "{''Gene'', ''Twin'', ''Expression''} \<subseteq> set (columns gene_df)"
    and m: "''Marker'' \<in> set (columns ox_df)" and v: "''Value'' \<notin> set (columns ox_df)"
  shows "main_pipeline env gene_df ox_df =
     ([LineChart (gene_view env gene_df) ''Timepoint'' ''Expression'' (Some ''Twin''),
       Error ''Required columns ['Timepoint','Value'] missing in oxidative_stress.csv''],
      Completed)"
proof -
  let ?F = "gene_df\<lparr>rows := filter (timepoint_le gene_df (days_in_space env)) (rows gene_df)\<rparr>"
  let ?X = "ox_df\<lparr>rows := filter (timepoint_le ox_df (days_in_space env)) (rows ox_df)\<rparr>"
  from g have t: "''Timepoint'' \<in> set (columns gene_df)"
    by (simp add: has_timepoint_def)
  have 1: "main_gene_plot (Some ?F) (selected_gene env gene_df) =
      Inr [LineChart (gene_view env gene_df) ''Timepoint'' ''Expression'' (Some ''Twin'')]"
    using cols t by (simp add: main_gene_plot_ok gene_view_def cong: option.case_cong)
  have 2: "main_ox_plot (Some ?X) v' =
      Inr [Error ''Required columns ['Timepoint','Value'] missing in oxidative_stress.csv'']"
    for v'
    using m v by (simp add: main_ox_plot_no_value)
  show ?thesis
    using cols m
    by (simp add: main_pipeline_def filter_days_rows [OF g] filter_days_rows [OF x]
        getitem_col_def 1 [unfolded selected_gene_def] 2 Let_def)
qed

text \<open>The example tables and states.\<close>

lemma has_timepoint_ox_tables:
  "has_timepoint ox_table" "has_timepoint ox_table_no_marker" "has_timepoint ox_table_no_value"
  by (simp_all add: has_timepoint_def ox_table_def ox_table_no_marker_def
      ox_table_no_value_def cell_at_def is_int_def)

lemma load_data_no_marker_env:
  "load_data no_marker_env gene_file label = (Inr (Some gene_table), [])"
  "load_data no_marker_env ox_file label = (Inr (Some ox_table_no_marker), [])"
  using files_neq by (simp_all add: load_data_def no_marker_env_def files_env_def)

lemma gene_view_gene_table:
  "gene_view files_env gene_table =
   gene_table\<lparr>rows := [[IntC 0, StrC ''A'', StrC ''X'', FloatC 1]]\<rparr>"
proof -
  have "selected_gene files_env gene_table = Some (StrC ''X'')"
    by (simp add: selected_gene_def gene_table_def files_env_def cell_at_def unique_def
        selectbox_def)
  then show ?thesis
    by (simp add: gene_view_def gene_table_within_340 files_env_def)
      (simp add: gene_table_def category_is_def cell_at_def)
qed

lemma app_pipeline_files_env:
  "app_pipeline files_env gene_table ox_table =
     ([LineChart (gene_table\<lparr>rows := [[IntC 0, StrC ''A'', StrC ''X'', FloatC 1]]\<rparr>)
         ''Timepoint'' ''Expression'' (Some ''Twin''),
       LineChart ox_table ''Timepoint'' ''Value'' None], Completed)"
proof -
  have g: "filter_by_days 340 gene_table =
      Inr (gene_table\<lparr>rows := [[IntC 0, StrC ''A'', StrC ''X'', FloatC 1]]\<rparr>)"
    by (simp add: filter_by_days_rows [OF has_timepoint_gene_table] gene_table_within_340)
  have "filter (timepoint_le ox_table 340) (rows ox_table) = rows ox_table"
    by (simp add: timepoint_le_def ox_table_def cell_at_def)
  then have x: "filter_by_days 340 ox_table = Inr ox_table"
    by (simp add: filter_by_days_rows [OF has_timepoint_ox_tables(1)])
  have d: "days_in_space files_env = 340" "gene_choice files_env = 0"
    "marker_choice files_env = 0"
    by (simp_all add: files_env_def)
  have sg: "selectbox (unique (map (cell_at (columns gene_table) ''Gene'') (rows gene_table))) 0
      = Some (StrC ''X'')"
    by (simp add: gene_table_def cell_at_def unique_def selectbox_def)
  have sm: "selectbox (unique (map (cell_at (columns ox_table) ''Marker'') (rows ox_table))) 0
      = Some (StrC ''M'')"
    by (simp add: ox_table_def cell_at_def unique_def selectbox_def)
  have p1: "app_gene_plot (gene_table\<lparr>rows := [[IntC 0, StrC ''A'', StrC ''X'', FloatC 1]]\<rparr>)
      (Some (StrC ''X'')) =
      Inr [LineChart (gene_table\<lparr>rows := [[IntC 0, StrC ''A'', StrC ''X'', FloatC 1]]\<rparr>)
         ''Timepoint'' ''Expression'' (Some ''Twin'')]"
    by (simp add: app_gene_plot_def narrow_rows and_then_def gene_table_def category_is_def
        cell_at_def)
  have "filter (category_is ox_table ''Marker'' (StrC ''M'')) (rows ox_table) = rows ox_table"
    by (simp add: ox_table_def category_is_def cell_at_def)
  moreover have "''Marker'' \<in> set (columns ox_table)" "''Timepoint'' \<in> set (columns ox_table)"
    "''Value'' \<in> set (columns ox_table)"
    by (simp_all add: ox_table_def)
  ultimately have p2: "app_ox_plot ox_table (Some (StrC ''M'')) =
      Inr [LineChart ox_table ''Timepoint'' ''Value'' None]"
    by (simp add: app_ox_plot_def narrow_rows and_then_def)
  have c: "''Gene'' \<in> set (columns gene_table)" "''Marker'' \<in> set (columns ox_table)"
    by (simp_all add: gene_table_def ox_table_def)
  show ?thesis
    using c by (simp add: app_pipeline_def d g x getitem_col_def sg sm p1 p2)
qed

text \<open>
  C2, as the claim states it, fails. With a valid gene file and a marker file that
  lacks \<^verbatim>\<open>Marker\<close>, \<^verbatim>\<open>app.py\<close> ends at its assertion and \<^verbatim>\<open>main.py\<close> at its
  \<^verbatim>\<open>st.stop()\<close>, both before the plots: the gene chart is not shown, although the
  same gene file gives a gene chart when the marker file is whole.
\<close>

theorem marker_missing_counterexample:
  "gene_chart_shown (fst (fst (run_app files_env Map.empty))) \<and>
   \<not> gene_chart_shown (fst (fst (run_app no_marker_env Map.empty))) \<and>
   fst (run_app no_marker_env Map.empty) =
     ([], Raised (AssertionError ''Column 'Marker' not found'')) \<and>
   \<not> gene_chart_shown (fst (fst (run_main no_marker_env Map.empty))) \<and>
   fst (run_main no_marker_env Map.empty) =
     ([Error '''Marker' column missing in oxidative_stress.csv''], Stopped)"
proof -
  have c: "''Gene'' \<in> set (columns gene_table)"
    "''Marker'' \<notin> set (columns ox_table_no_marker)"
    by (simp_all add: gene_table_def ox_table_no_marker_def)
  have 1: "fst (run_app files_env Map.empty) = app_pipeline files_env gene_table ox_table"
    using run_app_loaded [OF stored_under_empty load_data_files_env] by simp
  have 2: "fst (run_app no_marker_env Map.empty) =
      ([], Raised (AssertionError ''Column 'Marker' not found''))"
    using run_app_loaded [OF stored_under_empty load_data_no_marker_env]
    by (simp add: app_pipeline_no_marker [OF has_timepoint_gene_table
          has_timepoint_ox_tables(2) c])
  have 3: "fst (run_main no_marker_env Map.empty) =
      ([Error '''Marker' column missing in oxidative_stress.csv''], Stopped)"
    using run_main_loaded [OF stored_under_empty
        load_data_no_marker_env [folded load_csv_eq]]
    by (simp add: main_pipeline_no_marker [OF c])
  show ?thesis
    by (simp add: 1 2 3 app_pipeline_files_env gene_chart_shown_def is_chart_def)
qed

text \<open>
  C2, amended. For loaded frames with integer Timepoint columns and a gene frame with
  its \<^verbatim>\<open>Gene\<close>, \<^verbatim>\<open>Twin\<close> and \<^verbatim>\<open>Expression\<close> columns: when the marker frame lacks
  \<^verbatim>\<open>Marker\<close>, the run ends before either plot (\<^verbatim>\<open>app.py\<close> by its failed assertion,
  \<^verbatim>\<open>main.py\<close> by an error banner and a stop); when it has \<^verbatim>\<open>Marker\<close> and lacks
  \<^verbatim>\<open>Value\<close>, the gene chart is drawn, the marker plot is replaced by an error banner,
  and the run completes.
\<close>

theorem missing_column_handling:
  assumes "has_timepoint gene_df" and "has_timepoint ox_df"
    and "{''Gene'', ''Twin'', ''Expression''} \<subseteq> set (columns gene_df)"
  shows
    "(''Marker'' \<notin> set (columns ox_df) \<longrightarrow>
        app_pipeline env gene_df ox_df =
          ([], Raised (AssertionError ''Column 'Marker' not found'')) \<and>
        main_pipeline env gene_df ox_df =
          ([Error '''Marker' column missing in oxidative_stress.csv''], Stopped)) \<and>
     (''Marker'' \<in> set (columns ox_df) \<and> ''Value'' \<notin> set (columns ox_df) \<longrightarrow>
        app_pipeline env gene_df ox_df =
          ([LineChart (gene_view env gene_df) ''Timepoint'' ''Expression'' (Some ''Twin''),
            Error ''Required columns ['Timepoint','Marker','Value'] missing in oxidative_stress.csv''],
           Completed) \<and>
        main_pipeline env gene_df ox_df =
          ([LineChart (gene_view env gene_df) ''Timepoint'' ''Expression'' (Some ''Twin''),
            Error ''Required columns ['Timepoint','Value'] missing in oxidative_stress.csv''],
           Completed))"
proof -
  from assms(3) have g: "''Gene'' \<in> set (columns gene_df)"
    by simp
  show ?thesis
    using app_pipeline_no_marker [OF assms(1,2) g] main_pipeline_no_marker [OF g]
      app_pipeline_no_value [OF assms] main_pipeline_no_value [OF assms]
    by blast
qed

theorem missing_column_handling_witness:
  "has_timepoint gene_table \<and> has_timepoint ox_table_no_marker \<and>
   has_timepoint ox_table_no_value \<and>
   {''Gene'', ''Twin'', ''Expression''} \<subseteq> set (columns gene_table) \<and>
   ''Marker'' \<notin> set (columns ox_table_no_marker) \<and>
   app_pipeline files_env gene_table ox_table_no_marker =
     ([], Raised (AssertionError ''Column 'Marker' not found'')) \<and>
   main_pipeline files_env gene_table ox_table_no_marker =
     ([Error '''Marker' column missing in oxidative_stress.csv''], Stopped) \<and>
   ''Marker'' \<in> set (columns ox_table_no_value) \<and>
   ''Value'' \<notin> set (columns ox_table_no_value) \<and>
   app_pipeline files_env gene_table ox_table_no_value =
     ([LineChart (gene_table\<lparr>rows := [[IntC 0, StrC ''A'', StrC ''X'', FloatC 1]]\<rparr>)
         ''Timepoint'' ''Expression'' (Some ''Twin''),
       Error ''Required columns ['Timepoint','Marker','Value'] missing in oxidative_stress.csv''],
      Completed) \<and>
   main_pipeline files_env gene_table ox_table_no_value =
     ([LineChart (gene_table\<lparr>rows := [[IntC 0, StrC ''A'', StrC ''X'', FloatC 1]]\<rparr>)
         ''Timepoint'' ''Expression'' (Some ''Twin''),
       Error ''Required columns ['Timepoint','Value'] missing in oxidative_stress.csv''],
      Completed)"
proof -
  have c: "{''Gene'', ''Twin'', ''Expression''} \<subseteq> set (columns gene_table)"
    by (simp add: gene_table_def)
  have m: "''Marker'' \<notin> set (columns ox_table_no_marker)"
    "''Marker'' \<in> set (columns ox_table_no_value)"
    "''Value'' \<notin> set (columns ox_table_no_value)"
    by (simp_all add: ox_table_no_marker_def ox_table_no_value_def)
  show ?thesis
    using c m
      missing_column_handling [OF has_timepoint_gene_table has_timepoint_ox_tables(2) c,
        of files_env]
      missing_column_handling [OF has_timepoint_gene_table has_timepoint_ox_tables(3) c,
        of files_env]
    by (simp add: has_timepoint_gene_table has_timepoint_ox_tables gene_view_gene_table)
qed

section \<open>The store and the upload check box\<close>

lemma main_pipeline_files_env:
  "main_pipeline files_env gene_table ox_table =
     ([LineChart (gene_table\<lparr>rows := [[IntC 0, StrC ''A'', StrC ''X'', FloatC 1]]\<rparr>)
         ''Timepoint'' ''Expression'' (Some ''Twin''),
       LineChart ox_table ''Timepoint'' ''Value'' None], Completed)"
proof -
  have g: "filter_days 340 (Some gene_table) =
      Inr (Some (gene_table\<lparr>rows := [[IntC 0, StrC ''A'', StrC ''X'', FloatC 1]]\<rparr>))"
    by (simp add: filter_days_rows [OF has_timepoint_gene_table] gene_table_within_340)
  have "filter (timepoint_le ox_table 340) (rows ox_table) = rows ox_table"
    by (simp add: timepoint_le_def ox_table_def cell_at_def)
  then have x: "filter_days 340 (Some ox_table) = Inr (Some ox_table)"
    by (simp add: filter_days_rows [OF has_timepoint_ox_tables(1)])
  have d: "days_in_space files_env = 340" "gene_choice files_env = 0"
    "marker_choice files_env = 0"
    by (simp_all add: files_env_def)
  have sg: "selectbox (unique (map (cell_at (columns gene_table) ''Gene'') (rows gene_table))) 0
      = Some (StrC ''X'')"
    by (simp add: gene_table_def cell_at_def unique_def selectbox_def)
  have sm: "selectbox (unique (map (cell_at (columns ox_table) ''Marker'') (rows ox_table))) 0
      = Some (StrC ''M'')"
    by (simp add: ox_table_def cell_at_def unique_def selectbox_def)
  have p1: "main_gene_plot
      (Some (gene_table\<lparr>rows := [[IntC 0, StrC ''A'', StrC ''X'', FloatC 1]]\<rparr>))
      (Some (StrC ''X'')) =
      Inr [LineChart (gene_table\<lparr>rows := [[IntC 0, StrC ''A'', StrC ''X'', FloatC 1]]\<rparr>)
         ''Timepoint'' ''Expression'' (Some ''Twin'')]"
    by (simp add: main_gene_plot_def narrow_rows and_then_def gene_table_def category_is_def
        cell_at_def)
  have "filter (category_is ox_table ''Marker'' (StrC ''M'')) (rows ox_table) = rows ox_table"
    by (simp add: ox_table_def category_is_def cell_at_def)
  moreover have "''Marker'' \<in> set (columns ox_table)" "''Timepoint'' \<in> set (columns ox_table)"
    "''Value'' \<in> set (columns ox_table)"
    by (simp_all add: ox_table_def)
  ultimately have p2: "main_ox_plot (Some ox_table) (Some (StrC ''M'')) =
      Inr [LineChart ox_table ''Timepoint'' ''Value'' None]"
    by (simp add: main_ox_plot_def narrow_rows and_then_def)
  have c: "''Gene'' \<in> set (columns gene_table)" "''Marker'' \<in> set (columns ox_table)"
    by (simp_all add: gene_table_def ox_table_def)
  show ?thesis
    using c by (simp add: main_pipeline_def d g x getitem_col_def sg sm p1 p2)
qed

lemma pipelines_upload_env:
  "app_pipeline upload_env g x = app_pipeline files_env g x"
  "main_pipeline upload_env g x = main_pipeline files_env g x"
proof -
  have f: "days_in_space upload_env = days_in_space files_env"
    "gene_choice upload_env = gene_choice files_env"
    "marker_choice upload_env = marker_choice files_env"
    by (simp_all add: upload_env_def)
  show "app_pipeline upload_env g x = app_pipeline files_env g x"
    unfolding app_pipeline_def f by (rule refl)
  show "main_pipeline upload_env g x = main_pipeline files_env g x"
    unfolding main_pipeline_def f by (rule refl)
qed

lemma run_main_store: "snd (run_main files_env Map.empty) = stale_cache"
  using files_neq
  by (simp add: stale_cache_eq run_main_def cache_data_def load_csv_eq load_data_files_env
      split: prod.splits)

text \<open>
  C8. The memoized loader is to return what the loader computed from scratch returns,
  whatever the state outside its arguments, the upload check box included. The code
  does not: after a run with both files in place and the box not ticked, the user
  ticks \<^verbatim>\<open>Use CSV Uploader\<close> and uploads nothing. Computed from scratch, both loaders
  reach the uploader and return \<^verbatim>\<open>None\<close>, and the run stops with the request to
  provide the files. The decorated loaders find \<open>(path, label)\<close> in the store, skip
  their bodies, the uploader with them, and return the table read from \<^verbatim>\<open>data/\<close> in
  the earlier run; both charts are drawn from it.
\<close>

theorem stale_entry_hides_uploader:
  "fst (load_data upload_env gene_file ''Gene Expression'') = Inr None \<and>
   fst (fst (cache_data (load_data upload_env) stale_cache gene_file ''Gene Expression'')) =
     Inr (Some gene_table) \<and>
   fst (load_csv upload_env gene_file ''Gene Expression'') = Inr None \<and>
   fst (fst (cache_data (load_csv upload_env) stale_cache gene_file ''Gene Expression'')) =
     Inr (Some gene_table) \<and>
   fst (run_app upload_env Map.empty) =
     ([Warning ''Please provide both 'gene_expression.csv' and 'oxidative_stress.csv' in 'data/' or via uploader.''],
      Stopped) \<and>
   fst (run_app upload_env stale_cache) =
     ([LineChart (gene_table\<lparr>rows := [[IntC 0, StrC ''A'', StrC ''X'', FloatC 1]]\<rparr>)
         ''Timepoint'' ''Expression'' (Some ''Twin''),
       LineChart ox_table ''Timepoint'' ''Value'' None], Completed) \<and>
   fst (run_main upload_env Map.empty) =
     ([Warning ''Please upload or place both 'gene_expression.csv' and 'oxidative_stress.csv' in data/.''],
      Stopped) \<and>
   fst (run_main upload_env (snd (run_main files_env Map.empty))) =
     ([LineChart (gene_table\<lparr>rows := [[IntC 0, StrC ''A'', StrC ''X'', FloatC 1]]\<rparr>)
         ''Timepoint'' ''Expression'' (Some ''Twin''),
       LineChart ox_table ''Timepoint'' ''Value'' None], Completed)"
proof -
  have up: "load_data upload_env path label = (Inr None, [])" for path label
    by (simp add: load_data_def upload_env_def files_env_def)
  have hit:
    "cache_data f stale_cache gene_file ''Gene Expression'' =
       ((Inr (Some gene_table), []), stale_cache)"
    "cache_data f stale_cache ox_file ''Oxidative Stress'' =
       ((Inr (Some ox_table), []), stale_cache)" for f
    using files_neq by (simp_all add: stale_cache_eq cache_data_def)
  have fresh_app: "fst (run_app upload_env Map.empty) =
      ([Warning ''Please provide both 'gene_expression.csv' and 'oxidative_stress.csv' in 'data/' or via uploader.''],
       Stopped)"
    by (simp add: run_app_def cache_data_def up)
  have fresh_main: "fst (run_main upload_env Map.empty) =
      ([Warning ''Please upload or place both 'gene_expression.csv' and 'oxidative_stress.csv' in data/.''],
       Stopped)"
    by (simp add: run_main_def cache_data_def load_csv_eq up)
  have stale_app: "fst (run_app upload_env stale_cache) =
      app_pipeline files_env gene_table ox_table"
    by (simp add: run_app_def hit pipelines_upload_env split: prod.splits)
  have stale_main: "fst (run_main upload_env (snd (run_main files_env Map.empty))) =
      main_pipeline files_env gene_table ox_table"
    unfolding run_main_store
    by (simp add: run_main_def hit pipelines_upload_env split: prod.splits)
  show ?thesis
    by (simp add: up hit load_csv_eq fresh_app [simplified] fresh_main [simplified]
        stale_app stale_main app_pipeline_files_env main_pipeline_files_env)
qed

end
